theory Spec2Isabelle
  imports Main "HOL-Library.Word" "HOL-Library.Monad_Syntax"
begin

unbundle bit_operations_syntax

section \<open>Errors and results\<close>

text \<open>
  The error values of the packages nmea, system and gps. A wrapped error
  (\<^verbatim>\<open>fmt.Errorf("%w: %v", ErrX, err)\<close>) carries the text of the error it wraps.
  \<open>ErrTimeParse\<close> stands for the \<^verbatim>\<open>*time.ParseError\<close> values of the standard library,
  \<open>ErrContext\<close> for \<^verbatim>\<open>g.Ctx.Err()\<close>, \<open>ErrInvalidDevicePath\<close> for
  \<^verbatim>\<open>fmt.Errorf("invalid device path: %s", device)\<close>, \<open>ErrReadingDevice\<close> for
  \<^verbatim>\<open>fmt.Errorf("error reading device: %v", err)\<close> and \<open>ErrConfigureSerialPort\<close> for
  \<^verbatim>\<open>fmt.Errorf("failed to configure serial port: %v", err)\<close>.
\<close>

datatype error =
    ErrInvalidNMEAData
  | ErrTimeParse
  | ErrSystemTimeUpdate string
  | ErrUnsupportedOS string
  | ErrInvalidDevice
  | ErrDeviceAccess string
  | ErrNoValidData
  | ErrContext
  | ErrInvalidDevicePath string
  | ErrReadingDevice string
  | ErrConfigureSerialPort string

text \<open>
  A call either returns, panics (an index out of range), or is still in its read loop
  when the observed part of the run ends.
\<close>

datatype 'a outcome = Returned 'a | Panicked | Running

text \<open>
  What the body of one loop iteration does with a scanned line: \<^verbatim>\<open>continue\<close>, fall
  through to the \<^verbatim>\<open>scanner.Err()\<close> check that ends the iteration, \<^verbatim>\<open>return\<close>, or panic.
\<close>

datatype 'a step = Continue | FallThrough | Return 'a | Panic

section \<open>Strings\<close>

text \<open>Go strings are byte sequences; \<^verbatim>\<open>len\<close>, indexing and slicing count bytes.\<close>

definition HasPrefix :: "string \<Rightarrow> string \<Rightarrow> bool" where
  "HasPrefix s pfx = (length pfx \<le> length s \<and> take (length pfx) s = pfx)"

text \<open>\<^verbatim>\<open>strings.Split(s, sep)\<close> for a one-byte separator: the empty string gives one empty field.\<close>

fun Split :: "string \<Rightarrow> char \<Rightarrow> string list" where
  "Split [] sep = [[]]"
| "Split (c # cs) sep =
     (if c = sep then [] # Split cs sep
      else (case Split cs sep of
              f # fs \<Rightarrow> (c # f) # fs
            | [] \<Rightarrow> [[c]]))"

text \<open>The slice expression \<^verbatim>\<open>s[i:j]\<close>, used only where \<open>i \<le> j \<le> len(s)\<close> has been checked.\<close>

definition slice :: "string \<Rightarrow> nat \<Rightarrow> nat \<Rightarrow> string" where
  "slice s i j = take (j - i) (drop i s)"

text \<open>The index expression \<^verbatim>\<open>xs[i]\<close>: out of range it panics.\<close>

definition index :: "'a list \<Rightarrow> nat \<Rightarrow> 'a option" where
  "index xs i = (if i < length xs then Some (xs ! i) else None)"

definition zeroPad :: "nat \<Rightarrow> string \<Rightarrow> string" where
  "zeroPad w s = replicate (w - length s) (CHR ''0'') @ s"

definition decChar :: "nat \<Rightarrow> char" where
  "decChar d = ''0123456789'' ! d"

fun fmtDec :: "nat \<Rightarrow> string" where
  "fmtDec n = (if n < 10 then [decChar n] else fmtDec (n div 10) @ [decChar (n mod 10)])"

declare fmtDec.simps [simp del]

definition hexUpper :: "nat \<Rightarrow> char" where
  "hexUpper d = ''0123456789ABCDEF'' ! d"

fun fmtHexUpper :: "nat \<Rightarrow> string" where
  "fmtHexUpper n =
     (if n < 16 then [hexUpper n] else fmtHexUpper (n div 16) @ [hexUpper (n mod 16)])"

declare fmtHexUpper.simps [simp del]

text \<open>\<^verbatim>\<open>fmt.Sprintf("%d", v)\<close> and \<^verbatim>\<open>fmt.Sprintf("%02X", v)\<close> on an \<^verbatim>\<open>int\<close>: with the zero flag the
  width counts the sign.\<close>

definition Sprintf_d :: "int \<Rightarrow> string" where
  "Sprintf_d v = (if v < 0 then CHR ''-'' # fmtDec (nat (- v)) else fmtDec (nat v))"

definition Sprintf_02X :: "int \<Rightarrow> string" where
  "Sprintf_02X v =
     (if v < 0 then CHR ''-'' # zeroPad 1 (fmtHexUpper (nat (- v)))
      else zeroPad 2 (fmtHexUpper (nat v)))"

section \<open>The simulator's sentence encoder\<close>

text \<open>
  \<^verbatim>\<open>addChecksumAndCRLF\<close> of gps-simulator: the loop XORs every byte of the body into an
  \<^verbatim>\<open>int\<close> that starts at 0, and the result is \<^verbatim>\<open>fmt.Sprintf("$%s*%02X\r\n", body, checksum)\<close>.
\<close>

definition addChecksumAndCRLF :: "string \<Rightarrow> string" where
  "addChecksumAndCRLF sentenceBody =
     (let checksum = fold (\<lambda>char checksum. checksum XOR of_char char) sentenceBody (0 :: int)
      in ''$'' @ sentenceBody @ ''*'' @ Sprintf_02X checksum @ [CHR 0x0D, CHR 0x0A])"

text \<open>
  The codec as the specification words it: the checksum is a byte, the XOR of the bytes
  of the body; the encoder writes it as two uppercase hexadecimal digits.
\<close>

definition ComputeChecksum :: "string \<Rightarrow> 8 word" where
  "ComputeChecksum body = fold (\<lambda>c acc. acc XOR of_char c) body 0"

definition uppercaseHex :: "8 word \<Rightarrow> string" where
  "uppercaseHex w = [hexUpper (unat w div 16), hexUpper (unat w mod 16)]"

definition Encode :: "string \<Rightarrow> string" where
  "Encode body =
     ''$'' @ body @ ''*'' @ uppercaseHex (ComputeChecksum body) @ [CHR 0x0D, CHR 0x0A]"

section \<open>Timestamps: \<^verbatim>\<open>time.Parse\<close> and \<^verbatim>\<open>Time.Format\<close>\<close>

text \<open>
  A \<^verbatim>\<open>time.Time\<close> in UTC with whole seconds, as its civil fields.
\<close>

record Time =
  Year :: int
  Month :: int
  Day :: int
  Hour :: int
  Minute :: int
  Second :: int

text \<open>
  The helpers of package time that \<^verbatim>\<open>time.Parse\<close> runs for the layout
  \<^verbatim>\<open>"2006-01-02 15:04:05"\<close>: \<^verbatim>\<open>isDigit\<close>, \<^verbatim>\<open>getnum\<close>, \<^verbatim>\<open>leadingInt\<close>, \<^verbatim>\<open>atoi\<close>, \<^verbatim>\<open>cutspace\<close>,
  \<^verbatim>\<open>skip\<close>, \<^verbatim>\<open>isLeap\<close> and \<^verbatim>\<open>daysIn\<close>.
\<close>

definition isDigit :: "string \<Rightarrow> nat \<Rightarrow> bool" where
  "isDigit s i =
     (if length s \<le> i then False
      else (let c = of_char (s ! i) :: nat in 48 \<le> c \<and> c \<le> 57))"

definition digitVal :: "char \<Rightarrow> int" where
  "digitVal c = of_char c - 48"

definition getnum :: "string \<Rightarrow> bool \<Rightarrow> (int \<times> string) option" where
  "getnum s fixed =
     (if \<not> isDigit s 0 then None
      else if \<not> isDigit s 1 then
        (if fixed then None else Some (digitVal (s ! 0), drop 1 s))
      else Some (digitVal (s ! 0) * 10 + digitVal (s ! 1), drop 2 s))"

fun leadingInt :: "string \<Rightarrow> int \<Rightarrow> int \<times> string" where
  "leadingInt [] x = (x, [])"
| "leadingInt (c # cs) x =
     (if isDigit [c] 0 then leadingInt cs (x * 10 + digitVal c) else (x, c # cs))"

definition atoi :: "string \<Rightarrow> int option" where
  "atoi s =
     (let signed = (s \<noteq> [] \<and> (hd s = CHR ''-'' \<or> hd s = CHR ''+''));
          neg = (signed \<and> hd s = CHR ''-'');
          (q, rem) = leadingInt (if signed then tl s else s) 0
      in if rem \<noteq> [] then None else Some (if neg then - q else q))"

definition cutspace :: "string \<Rightarrow> string" where
  "cutspace s = dropWhile (\<lambda>c. c = CHR '' '') s"

function skip :: "string \<Rightarrow> string \<Rightarrow> string option" where
  "skip v [] = Some v"
| "skip v (p # ps) =
     (if p = CHR '' '' then
        (if v \<noteq> [] \<and> hd v \<noteq> CHR '' '' then None
         else skip (cutspace v) (cutspace (p # ps)))
      else if v = [] \<or> hd v \<noteq> p then None
      else skip (tl v) ps)"
  by pat_completeness auto
termination
  by (relation "measure (\<lambda>(v, p). length p)")
     (auto simp: cutspace_def intro: le_imp_less_Suc length_dropWhile_le)

definition isLeap :: "int \<Rightarrow> bool" where
  "isLeap y = (y mod 4 = 0 \<and> (y mod 100 \<noteq> 0 \<or> y mod 400 = 0))"

definition daysIn :: "int \<Rightarrow> int \<Rightarrow> int" where
  "daysIn m y =
     (if m = 2 then (if isLeap y then 29 else 28)
      else if m = 4 \<or> m = 6 \<or> m = 9 \<or> m = 11 then 30
      else 31)"

definition require :: "bool \<Rightarrow> unit option" where
  "require b = (if b then Some () else None)"

text \<open>
  The chunks of the layout \<^verbatim>\<open>"2006-01-02 15:04:05"\<close> in order: a four-digit year, then
  month, day, hour, minute and second, each after its literal prefix. Month, day, minute
  and second are two digits (\<open>getnum\<close> with \<open>fixed\<close>); the hour chunk \<^verbatim>\<open>15\<close> accepts one
  digit or two. Month, hour, minute and second are range-checked as they are read. The
  result is the fields read and the text left after the seconds.
\<close>

definition parseChunks :: "string \<Rightarrow> (Time \<times> string) option" where
  "parseChunks v0 = do {
     require (\<not> (length v0 < 4 \<or> \<not> isDigit v0 0));
     y \<leftarrow> atoi (take 4 v0);
     v1 \<leftarrow> skip (drop 4 v0) ''-'';
     (mo, v2) \<leftarrow> getnum v1 True;
     require (\<not> (mo \<le> 0 \<or> 12 < mo));
     v3 \<leftarrow> skip v2 ''-'';
     (d, v4) \<leftarrow> getnum v3 True;
     v5 \<leftarrow> skip v4 '' '';
     (h, v6) \<leftarrow> getnum v5 False;
     require (\<not> (h < 0 \<or> 24 \<le> h));
     v7 \<leftarrow> skip v6 '':'';
     (mi, v8) \<leftarrow> getnum v7 True;
     require (\<not> (mi < 0 \<or> 60 \<le> mi));
     v9 \<leftarrow> skip v8 '':'';
     (s, v10) \<leftarrow> getnum v9 True;
     require (\<not> (s < 0 \<or> 60 \<le> s));
     Some (\<lparr>Year = y, Month = mo, Day = d, Hour = h, Minute = mi, Second = s\<rparr>, v10)
   }"

text \<open>
  \<^verbatim>\<open>time.Parse("2006-01-02 15:04:05", value)\<close>. Text left after the seconds is an error
  here. (The library reads a fraction of a second there when at least two bytes are left;
  \<open>ParseNMEATime\<close> never leaves any, see \<open>ParseNMEATime_no_text_left\<close>.) The day of the
  month is validated last, against the month and year.
\<close>

definition time_Parse :: "string \<Rightarrow> error + Time" where
  "time_Parse v =
     (case parseChunks v of
        None \<Rightarrow> Inl ErrTimeParse
      | Some (t, rest) \<Rightarrow>
          if rest \<noteq> [] then Inl ErrTimeParse
          else if Day t < 1 \<or> Day t > daysIn (Month t) (Year t) then Inl ErrTimeParse
          else Inr t)"

text \<open>\<^verbatim>\<open>appendInt\<close> of package time: decimal, zero-padded to the width.\<close>

definition appendInt :: "int \<Rightarrow> nat \<Rightarrow> string" where
  "appendInt x width =
     (if x < 0 then CHR ''-'' # zeroPad width (fmtDec (nat (- x)))
      else zeroPad width (fmtDec (nat x)))"

text \<open>\<^verbatim>\<open>t.Format\<close> for the three layouts \<open>SetSystemTime\<close> uses.\<close>

definition Format_clock :: "Time \<Rightarrow> string" where
  "Format_clock t =
     appendInt (Hour t) 2 @ '':'' @ appendInt (Minute t) 2 @ '':'' @ appendInt (Second t) 2"

definition Format_usdate :: "Time \<Rightarrow> string" where
  "Format_usdate t =
     appendInt (Month t) 2 @ ''/'' @ appendInt (Day t) 2 @ ''/'' @ appendInt (Year t) 4"

definition Format_datetime :: "Time \<Rightarrow> string" where
  "Format_datetime t =
     appendInt (Year t) 4 @ ''-'' @ appendInt (Month t) 2 @ ''-'' @ appendInt (Day t) 2
       @ '' '' @ Format_clock t"

section \<open>Package nmea\<close>

text \<open>
  \<^verbatim>\<open>ParseNMEATime\<close>: the length check, the six slices, the year as \<^verbatim>\<open>"20" + dateStr[4:6]\<close>,
  and \<^verbatim>\<open>time.Parse\<close> on \<^verbatim>\<open>fmt.Sprintf("%s-%s-%s %s:%s:%s", ...)\<close>. The source's variable
  \<^verbatim>\<open>min\<close> is \<open>minute\<close> here.
\<close>

definition ParseNMEATime :: "string \<Rightarrow> string \<Rightarrow> error + Time" where
  "ParseNMEATime timeStr dateStr =
     (if length timeStr < 6 \<or> length dateStr \<noteq> 6 then Inl ErrInvalidNMEAData
      else
        (let hour = slice timeStr 0 2;
             minute = slice timeStr 2 4;
             sec = slice timeStr 4 6;
             day = slice dateStr 0 2;
             month = slice dateStr 2 4;
             year = ''20'' @ slice dateStr 4 6
         in time_Parse
              (year @ ''-'' @ month @ ''-'' @ day @ '' '' @ hour @ '':'' @ minute @ '':'' @ sec)))"

section \<open>The environment\<close>

text \<open>
  The read loops of \<^verbatim>\<open>IsGPSDevice\<close> and \<^verbatim>\<open>SyncTime\<close> start each iteration with a
  \<^verbatim>\<open>select\<close> over the timeout channel and \<^verbatim>\<open>g.Ctx.Done()\<close>, with a \<^verbatim>\<open>default\<close> case that
  scans. A run is the list of what each iteration met: the timeout case taken, the
  cancellation case taken, or the default case, with the line \<^verbatim>\<open>scanner.Scan()\<close>
  delivered (\<open>None\<close> when it returned \<^verbatim>\<open>false\<close>) and the value of \<^verbatim>\<open>scanner.Err()\<close>
  after it. Every combination of the two is admitted, which covers all a
  \<^verbatim>\<open>bufio.Scanner\<close> can do. A run that ends while the loop is still going (a read that
  blocks) gives \<open>Running\<close>.
\<close>

datatype select_case =
    TimeoutFired
  | CtxDone
  | Default "string option" "string option"

text \<open>
  The platform: \<^verbatim>\<open>runtime.GOOS\<close>, the error of \<^verbatim>\<open>os.OpenFile\<close> for a path (if any), the
  error of \<^verbatim>\<open>cmd.Run()\<close> for a command line (if any), and the run of the read loop.
\<close>

record Env =
  GOOS :: string
  openErr :: "string \<Rightarrow> string option"
  cmdErr :: "string list \<Rightarrow> string option"
  selects :: "select_case list"

text \<open>The struct \<^verbatim>\<open>GPSTimeSync\<close>; its context is the \<open>CtxDone\<close> events of the run.\<close>

record GPSTimeSync =
  DevicePath :: string
  BaudRate :: int
  Debug :: bool

text \<open>What a call does to the world, in order.\<close>

datatype log_line =
    LogParseWarning error
  | LogSynchronized Time
  | LogDetected string

datatype effect =
    OpenFile string
  | CloseFile string
  | Exec "string list"
  | Scan
  | CallSetSystemTime Time
  | Log log_line

section \<open>Package system\<close>

definition isUnixLike :: "string \<Rightarrow> bool" where
  "isUnixLike os =
     (os = ''linux'' \<or> os = ''darwin'' \<or> os = ''freebsd'' \<or> os = ''openbsd'' \<or> os = ''netbsd'')"

definition SetSystemTime :: "Env \<Rightarrow> Time \<Rightarrow> effect list \<times> error option" where
  "SetSystemTime env t =
     (if GOOS env = ''windows'' then
        (let cmd1 = [''time'', Format_clock t] in
         case cmdErr env cmd1 of
           Some err \<Rightarrow> ([Exec cmd1], Some (ErrSystemTimeUpdate err))
         | None \<Rightarrow>
             (let cmd2 = [''date'', Format_usdate t] in
              case cmdErr env cmd2 of
                Some err \<Rightarrow> ([Exec cmd1, Exec cmd2], Some (ErrSystemTimeUpdate err))
              | None \<Rightarrow> ([Exec cmd1, Exec cmd2], None)))
      else if isUnixLike (GOOS env) then
        (let cmd = [''date'', ''-s'', Format_datetime t] in
         case cmdErr env cmd of
           Some err \<Rightarrow> ([Exec cmd], Some (ErrSystemTimeUpdate err))
         | None \<Rightarrow> ([Exec cmd], None))
      else ([], Some (ErrUnsupportedOS (GOOS env))))"

definition ConfigureSerialPort :: "Env \<Rightarrow> string \<Rightarrow> int \<Rightarrow> effect list \<times> error option" where
  "ConfigureSerialPort env device baudRate =
     (if GOOS env = ''windows'' then ([], None)
      else if isUnixLike (GOOS env) then
        (let cmd = [''stty'', ''-F'', device, Sprintf_d baudRate, ''raw'', ''-echo''] in
         case cmdErr env cmd of
           Some err \<Rightarrow> ([Exec cmd], Some (ErrConfigureSerialPort err))
         | None \<Rightarrow> ([Exec cmd], None))
      else ([], Some (ErrUnsupportedOS (GOOS env))))"

section \<open>Package gps\<close>

subsection \<open>IsGPSDevice\<close>

text \<open>The body of \<^verbatim>\<open>if scanner.Scan() { ... }\<close> in \<^verbatim>\<open>IsGPSDevice\<close>.\<close>

definition talkerPrefix :: "string \<Rightarrow> bool" where
  "talkerPrefix line =
     (HasPrefix line ''$GP'' \<or> HasPrefix line ''$GN'' \<or>
      HasPrefix line ''$GL'' \<or> HasPrefix line ''$GA'')"

definition probeLine :: "string \<Rightarrow> effect list \<times> (bool \<times> error option) step" where
  "probeLine line =
     (if talkerPrefix line then ([Log (LogDetected line)], Return (True, None))
      else ([], FallThrough))"

text \<open>The \<^verbatim>\<open>for { select { ... } }\<close> loop of \<^verbatim>\<open>IsGPSDevice\<close>.\<close>

fun probeLoop :: "select_case list \<Rightarrow> effect list \<times> (bool \<times> error option) outcome" where
  "probeLoop [] = ([], Running)"
| "probeLoop (TimeoutFired # evs) = ([], Returned (False, Some ErrNoValidData))"
| "probeLoop (CtxDone # evs) = ([], Returned (False, Some ErrContext))"
| "probeLoop (Default tok err # evs) =
     (case (case tok of None \<Rightarrow> ([], FallThrough) | Some line \<Rightarrow> probeLine line) of
        (es, Return r) \<Rightarrow> (Scan # es, Returned r)
      | (es, Panic) \<Rightarrow> (Scan # es, Panicked)
      | (es, Continue) \<Rightarrow> (Scan # es @ fst (probeLoop evs), snd (probeLoop evs))
      | (es, FallThrough) \<Rightarrow>
          (case err of
             Some e \<Rightarrow> (Scan # es, Returned (False, Some (ErrReadingDevice e)))
           | None \<Rightarrow> (Scan # es @ fst (probeLoop evs), snd (probeLoop evs))))"

text \<open>The deferred \<^verbatim>\<open>file.Close()\<close> runs when the function returns or panics.\<close>

definition deferred :: "effect \<Rightarrow> 'a outcome \<Rightarrow> effect list" where
  "deferred e r = (case r of Running \<Rightarrow> [] | _ \<Rightarrow> [e])"

definition IsGPSDevice ::
  "Env \<Rightarrow> GPSTimeSync \<Rightarrow> string \<Rightarrow> effect list \<times> (bool \<times> error option) outcome" where
  "IsGPSDevice env g device =
     (if GOOS env = ''windows'' \<and> \<not> HasPrefix device ''COM'' then
        ([], Returned (False, Some (ErrInvalidDevicePath device)))
      else if GOOS env \<noteq> ''windows'' \<and> \<not> HasPrefix device ''/dev/'' then
        ([], Returned (False, Some (ErrInvalidDevicePath device)))
      else
        (case openErr env device of
           Some err \<Rightarrow> ([OpenFile device], Returned (False, Some (ErrDeviceAccess err)))
         | None \<Rightarrow>
             (case ConfigureSerialPort env device (BaudRate g) of
                (cs, Some err) \<Rightarrow>
                  (OpenFile device # cs @ [CloseFile device], Returned (False, Some err))
              | (cs, None) \<Rightarrow>
                  (let (es, r) = probeLoop (selects env)
                   in (OpenFile device # cs @ es @ deferred (CloseFile device) r, r)))))"

subsection \<open>SyncTime\<close>

text \<open>
  The body of \<^verbatim>\<open>if scanner.Scan() { ... }\<close> in \<^verbatim>\<open>SyncTime\<close>. The condition
  \<^verbatim>\<open>len(fields) < 10 || fields[2] != "A"\<close> reads \<^verbatim>\<open>fields[2]\<close> only when the length test is
  false.
\<close>

definition syncLine :: "Env \<Rightarrow> GPSTimeSync \<Rightarrow> string \<Rightarrow> effect list \<times> (error option) step" where
  "syncLine env g line =
     (if HasPrefix line ''$GPRMC'' then
        (let fields = Split line (CHR '','') in
         if length fields < 10 then ([], Continue)
         else
           (case index fields 2 of
              None \<Rightarrow> ([], Panic)
            | Some status \<Rightarrow>
                if status \<noteq> ''A'' then ([], Continue)
                else
                  (case (index fields 1, index fields 9) of
                     (Some f1, Some f9) \<Rightarrow>
                       (case ParseNMEATime f1 f9 of
                          Inl err \<Rightarrow>
                            ((if Debug g then [Log (LogParseWarning err)] else []), Continue)
                        | Inr gpsTime \<Rightarrow>
                            (case SetSystemTime env gpsTime of
                               (cs, Some err) \<Rightarrow>
                                 (CallSetSystemTime gpsTime # cs, Return (Some err))
                             | (cs, None) \<Rightarrow>
                                 (CallSetSystemTime gpsTime # cs @ [Log (LogSynchronized gpsTime)],
                                  Return None)))
                   | _ \<Rightarrow> ([], Panic))))
      else ([], FallThrough))"

text \<open>The \<^verbatim>\<open>for { select { ... } }\<close> loop of \<^verbatim>\<open>SyncTime\<close>.\<close>

fun syncLoop :: "Env \<Rightarrow> GPSTimeSync \<Rightarrow> select_case list \<Rightarrow> effect list \<times> (error option) outcome" where
  "syncLoop env g [] = ([], Running)"
| "syncLoop env g (TimeoutFired # evs) = ([], Returned (Some ErrNoValidData))"
| "syncLoop env g (CtxDone # evs) = ([], Returned (Some ErrContext))"
| "syncLoop env g (Default tok err # evs) =
     (case (case tok of None \<Rightarrow> ([], FallThrough) | Some line \<Rightarrow> syncLine env g line) of
        (es, Return r) \<Rightarrow> (Scan # es, Returned r)
      | (es, Panic) \<Rightarrow> (Scan # es, Panicked)
      | (es, Continue) \<Rightarrow> (Scan # es @ fst (syncLoop env g evs), snd (syncLoop env g evs))
      | (es, FallThrough) \<Rightarrow>
          (case err of
             Some e \<Rightarrow> (Scan # es, Returned (Some (ErrReadingDevice e)))
           | None \<Rightarrow> (Scan # es @ fst (syncLoop env g evs), snd (syncLoop env g evs))))"

definition SyncTime :: "Env \<Rightarrow> GPSTimeSync \<Rightarrow> effect list \<times> (error option) outcome" where
  "SyncTime env g =
     (case openErr env (DevicePath g) of
        Some err \<Rightarrow> ([OpenFile (DevicePath g)], Returned (Some (ErrDeviceAccess err)))
      | None \<Rightarrow>
          (case ConfigureSerialPort env (DevicePath g) (BaudRate g) of
             (cs, Some err) \<Rightarrow>
               (OpenFile (DevicePath g) # cs @ [CloseFile (DevicePath g)], Returned (Some err))
           | (cs, None) \<Rightarrow>
               (let (es, r) = syncLoop env g (selects env)
                in (OpenFile (DevicePath g) # cs @ es @ deferred (CloseFile (DevicePath g)) r,
                    r))))"

text \<open>How often a trace calls \<^verbatim>\<open>system.SetSystemTime\<close>, and how often it scans.\<close>

definition clockSets :: "effect list \<Rightarrow> nat" where
  "clockSets es = length (filter (\<lambda>e. case e of CallSetSystemTime _ \<Rightarrow> True | _ \<Rightarrow> False) es)"

definition scans :: "effect list \<Rightarrow> nat" where
  "scans es = length (filter (\<lambda>e. e = Scan) es)"

definition opensOrConfigures :: "effect list \<Rightarrow> bool" where
  "opensOrConfigures es =
     list_ex (\<lambda>e. case e of OpenFile _ \<Rightarrow> True | Exec _ \<Rightarrow> True | _ \<Rightarrow> False) es"

text \<open>
  An iteration of the probe's loop that goes on to the next one: the default case was
  taken, the scan gave no line or a line without a talker prefix, and \<^verbatim>\<open>scanner.Err()\<close>
  was nil.
\<close>

definition quietRead :: "select_case \<Rightarrow> bool" where
  "quietRead ev =
     (case ev of
        Default tok err \<Rightarrow>
          err = None \<and> (case tok of None \<Rightarrow> True | Some line \<Rightarrow> \<not> talkerPrefix line)
      | _ \<Rightarrow> False)"

text \<open>
  A host for concrete runs: the operating system, the result of every command, and the
  run of the read loop; every open succeeds.
\<close>

definition hostEnv :: "string \<Rightarrow> string option \<Rightarrow> select_case list \<Rightarrow> Env" where
  "hostEnv os cmdResult evs =
     \<lparr>GOOS = os, openErr = (\<lambda>_. None), cmdErr = (\<lambda>_. cmdResult), selects = evs\<rparr>"

section \<open>The decoder of the specification\<close>

text \<open>
  Modelled from the spec: the error \<open>ErrMalformedSentence\<close> of the Sentence Codec
  (sections 4.1 and 7). No source file reads or checks the checksum of a sentence.
\<close>

datatype ParseError = ErrMalformedSentence

text \<open>
  Modelled from the spec: the data type \<open>Sentence\<close> (section 3), which no source file
  declares: talker, sentence type, fields (here \<open>dataFields\<close>), the checksum read from the line and whether it
  equals the XOR of the bytes between \<open>$\<close> and \<open>*\<close>.
\<close>

record Sentence =
  talkerID :: string
  sentenceType :: string
  dataFields :: "string list"
  checksum :: "8 word"
  checksumValid :: bool

text \<open>
  Modelled from the spec: "strips trailing CR/LF" (section 4.1), which no source file
  does itself.
\<close>

definition stripCRLF :: "string \<Rightarrow> string" where
  "stripCRLF s = rev (dropWhile (\<lambda>c. c = CHR 0x0D \<or> c = CHR 0x0A) (rev s))"

text \<open>
  Modelled from the spec: the value of one of the "two hex digits" of the checksum
  (section 4.1), in either case.
\<close>

definition hexValue :: "char \<Rightarrow> nat option" where
  "hexValue c =
     (let n = of_char c :: nat in
      if 48 \<le> n \<and> n \<le> 57 then Some (n - 48)
      else if 65 \<le> n \<and> n \<le> 70 then Some (n - 55)
      else if 97 \<le> n \<and> n \<le> 102 then Some (n - 87)
      else None)"

text \<open>
  Modelled from the spec: \<open>Decode\<close> (section 4.1), which no source file implements. It
  "strips trailing CR/LF, requires a leading \<open>$\<close> and a \<open>*\<close> followed by exactly two hex
  digits; splits the substring before \<open>*\<close> on \<open>,\<close> to get talker+type (first field's first
  2 and next 3 characters) and subsequent fields; recomputes the checksum over the body
  and sets \<open>checksumValid\<close>". The \<open>*\<close> is the first one of the line.
\<close>

definition Decode :: "string \<Rightarrow> ParseError + Sentence" where
  "Decode line =
     (case stripCRLF line of
        [] \<Rightarrow> Inl ErrMalformedSentence
      | c # rest \<Rightarrow>
          if c \<noteq> CHR ''$'' then Inl ErrMalformedSentence
          else
            (let body = takeWhile (\<lambda>x. x \<noteq> CHR ''*'') rest;
                 suffix = dropWhile (\<lambda>x. x \<noteq> CHR ''*'') rest
             in case suffix of
                  [star, h1, h2] \<Rightarrow>
                    (case (hexValue h1, hexValue h2) of
                       (Some a, Some b) \<Rightarrow>
                         (case Split body (CHR '','') of
                            [] \<Rightarrow> Inl ErrMalformedSentence
                          | first # others \<Rightarrow>
                              Inr \<lparr>talkerID = take 2 first,
                                   sentenceType = take 3 (drop 2 first),
                                   dataFields = others,
                                   checksum = of_nat (16 * a + b),
                                   checksumValid = (ComputeChecksum body = of_nat (16 * a + b))\<rparr>)
                     | _ \<Rightarrow> Inl ErrMalformedSentence)
                | _ \<Rightarrow> Inl ErrMalformedSentence))"

text \<open>
  Modelled from the spec: a "valid sentence body" (section 8) is one the wire format of
  section 6 can carry between \<open>$\<close> and \<open>*\<close>: it holds no \<open>*\<close>.
\<close>

definition validBody :: "string \<Rightarrow> bool" where
  "validBody b = (CHR ''*'' \<notin> set b)"

section \<open>Properties of the encoder\<close>

lemma uint_of_char: "uint (of_char c :: 8 word) = of_char c"
proof -
  have "(of_char c :: 8 word) = of_nat (of_char c)"
    by (simp add: of_nat_of_char)
  then have "unat (of_char c :: 8 word) = of_char c mod 256"
    by (simp add: unat_of_nat)
  then have "int (unat (of_char c :: 8 word)) = int (of_char c)"
    by simp
  then show ?thesis
    by (simp add: of_nat_of_char)
qed

lemma fold_xor_uint:
  "fold (\<lambda>char checksum. checksum XOR of_char char) b (uint (w :: 8 word)) =
   uint (fold (\<lambda>c acc. acc XOR of_char c) b w)"
proof (induction b arbitrary: w)
  case Nil
  show ?case by simp
next
  case (Cons a b)
  have "uint w XOR of_char a = uint (w XOR of_char a)"
    by (simp add: uint_xor uint_of_char)
  then show ?case
    using Cons.IH [of "w XOR of_char a"] by simp
qed

lemma fmtHexUpper_digit: "n < 16 \<Longrightarrow> fmtHexUpper n = [hexUpper n]"
  by (simp add: fmtHexUpper.simps)

lemma zeroPad_fmtHexUpper:
  assumes "n < 256"
  shows "zeroPad 2 (fmtHexUpper n) = [hexUpper (n div 16), hexUpper (n mod 16)]"
proof (cases "n < 16")
  case True
  then show ?thesis
    by (simp add: fmtHexUpper_digit zeroPad_def hexUpper_def)
next
  case False
  from assms have "n div 16 < 16" by simp
  then have "fmtHexUpper n = [hexUpper (n div 16), hexUpper (n mod 16)]"
    using False fmtHexUpper.simps [of n] by (simp add: fmtHexUpper_digit)
  then show ?thesis
    by (simp add: zeroPad_def)
qed

lemma Sprintf_02X_checksum:
  "Sprintf_02X (fold (\<lambda>char checksum. checksum XOR of_char char) b 0) =
   uppercaseHex (ComputeChecksum b)"
proof -
  let ?w = "ComputeChecksum b"
  have c: "fold (\<lambda>char checksum. checksum XOR of_char char) b (0::int) = uint ?w"
    using fold_xor_uint [of b 0] by (simp add: ComputeChecksum_def)
  have lt: "unat ?w < 256"
    using unsigned_less [of ?w, where ?'a = nat] by simp
  show ?thesis
    using zeroPad_fmtHexUpper [OF lt] by (simp add: c Sprintf_02X_def uppercaseHex_def)
qed

text \<open>
  Claim C6. For every sentence body \<open>b\<close>, \<open>addChecksumAndCRLF b\<close> is exactly \<open>$\<close>, then
  \<open>b\<close>, then \<open>*\<close>, then the XOR of the bytes of \<open>b\<close> as two uppercase hexadecimal
  digits, then CR LF: the function computed by the source (an \<^verbatim>\<open>int\<close> accumulator and
  \<^verbatim>\<open>%02X\<close>) is the function \<open>Encode\<close> of the specification (a byte and two digits). As a
  function of \<open>b\<close> alone it is pure and deterministic.
\<close>

theorem addChecksumAndCRLF_is_Encode:
  "addChecksumAndCRLF b = Encode b"
proof -
  have "Sprintf_02X (fold (\<lambda>char checksum. checksum XOR of_char char) b 0) =
        uppercaseHex (ComputeChecksum b)"
    by (rule Sprintf_02X_checksum)
  then show ?thesis
    by (simp add: addChecksumAndCRLF_def Encode_def)
qed

theorem addChecksumAndCRLF_is_Encode_witness:
  "addChecksumAndCRLF ''GPGGA,1'' = Encode ''GPGGA,1'' \<and>
   Encode ''GPGGA,1'' = ''$GPGGA,1*'' @ ''4B'' @ [CHR 0x0D, CHR 0x0A]"
  using addChecksumAndCRLF_is_Encode [of "''GPGGA,1''"]
  by (simp add: Encode_def ComputeChecksum_def uppercaseHex_def hexUpper_def)

section \<open>Round trip through the decoder of the specification\<close>

lemma hexValue_hexUpper: "d < 16 \<Longrightarrow> hexValue (hexUpper d) = Some d"
proof -
  assume "d < 16"
  then have "d = 0 \<or> d = 1 \<or> d = 2 \<or> d = 3 \<or> d = 4 \<or> d = 5 \<or> d = 6 \<or> d = 7 \<or>
             d = 8 \<or> d = 9 \<or> d = 10 \<or> d = 11 \<or> d = 12 \<or> d = 13 \<or> d = 14 \<or> d = 15"
    by arith
  then show ?thesis
    by (elim disjE) (simp_all add: hexValue_def hexUpper_def)
qed

lemma hexUpper_not_CRLF: "d < 16 \<Longrightarrow> hexUpper d \<noteq> CHR 0x0D \<and> hexUpper d \<noteq> CHR 0x0A"
proof -
  assume "d < 16"
  then have "d = 0 \<or> d = 1 \<or> d = 2 \<or> d = 3 \<or> d = 4 \<or> d = 5 \<or> d = 6 \<or> d = 7 \<or>
             d = 8 \<or> d = 9 \<or> d = 10 \<or> d = 11 \<or> d = 12 \<or> d = 13 \<or> d = 14 \<or> d = 15"
    by arith
  then show ?thesis
    by (elim disjE) (simp_all add: hexUpper_def)
qed

lemma Split_not_Nil: "Split s sep \<noteq> []"
  by (induction s) (auto split: list.splits)

lemma takeWhile_upto: "c \<notin> set b \<Longrightarrow> takeWhile (\<lambda>x. x \<noteq> c) (b @ c # r) = b"
  by (induction b) auto

lemma dropWhile_upto: "c \<notin> set b \<Longrightarrow> dropWhile (\<lambda>x. x \<noteq> c) (b @ c # r) = c # r"
  by (induction b) auto

lemma stripCRLF_sentence:
  assumes "h2 \<noteq> CHR 0x0D" "h2 \<noteq> CHR 0x0A"
  shows "stripCRLF (c # xs @ [s, h1, h2, CHR 0x0D, CHR 0x0A]) = c # xs @ [s, h1, h2]"
  using assms by (simp add: stripCRLF_def)

lemma Decode_sentence:
  assumes "validBody b" and "hi < 16" and "lo < 16"
  shows "Decode (''$'' @ b @ ''*'' @ [hexUpper hi, hexUpper lo] @ [CHR 0x0D, CHR 0x0A]) =
         (case Split b (CHR '','') of
            first # others \<Rightarrow>
              Inr \<lparr>talkerID = take 2 first, sentenceType = take 3 (drop 2 first),
                   dataFields = others, checksum = of_nat (16 * hi + lo),
                   checksumValid = (ComputeChecksum b = of_nat (16 * hi + lo))\<rparr>)"
proof -
  have strip: "stripCRLF (CHR ''$'' # b @ [CHR ''*'', hexUpper hi, hexUpper lo, CHR 0x0D, CHR 0x0A])
               = CHR ''$'' # b @ [CHR ''*'', hexUpper hi, hexUpper lo]"
    using hexUpper_not_CRLF [OF assms(3)] by (simp add: stripCRLF_sentence)
  have tw: "takeWhile (\<lambda>x. x \<noteq> CHR ''*'') (b @ [CHR ''*'', hexUpper hi, hexUpper lo]) = b"
    using assms(1) by (simp add: validBody_def takeWhile_upto)
  have dw: "dropWhile (\<lambda>x. x \<noteq> CHR ''*'') (b @ [CHR ''*'', hexUpper hi, hexUpper lo])
            = [CHR ''*'', hexUpper hi, hexUpper lo]"
    using assms(1) by (simp add: validBody_def dropWhile_upto)
  obtain first others where sp: "Split b (CHR '','') = first # others"
    using Split_not_Nil [of b "CHR '',''"] by (cases "Split b (CHR '','')") auto
  show ?thesis
    by (simp add: Decode_def strip tw dw sp hexValue_hexUpper assms(2,3))
qed

text \<open>
  Claim C7. For every valid sentence body \<open>b\<close>, decoding the sentence the encoder builds
  from \<open>b\<close> gives a \<open>Sentence\<close> whose \<open>checksumValid\<close> is true: the checksum the encoder
  appends is the one the decoder recomputes over the body.
\<close>

theorem Decode_addChecksumAndCRLF_valid:
  assumes "validBody b"
  shows "\<exists>s. Decode (addChecksumAndCRLF b) = Inr s \<and> checksumValid s \<and>
             checksum s = ComputeChecksum b"
proof -
  let ?w = "ComputeChecksum b"
  have lt: "unat ?w < 256"
    using unsigned_less [of ?w, where ?'a = nat] by simp
  then have hi: "unat ?w div 16 < 16" and lo: "unat ?w mod 16 < 16"
    by simp_all
  have enc: "addChecksumAndCRLF b =
             ''$'' @ b @ ''*'' @ [hexUpper (unat ?w div 16), hexUpper (unat ?w mod 16)]
               @ [CHR 0x0D, CHR 0x0A]"
    by (simp add: addChecksumAndCRLF_def Sprintf_02X_checksum uppercaseHex_def)
  have rejoin: "(of_nat (16 * (unat ?w div 16) + unat ?w mod 16) :: 8 word) = ?w"
    by simp
  obtain first others where sp: "Split b (CHR '','') = first # others"
    using Split_not_Nil [of b "CHR '',''"] by (cases "Split b (CHR '','')") auto
  show ?thesis
    unfolding enc Decode_sentence [OF assms hi lo] rejoin sp
    by simp
qed

theorem Decode_addChecksumAndCRLF_valid_witness:
  "validBody ''GPGGA,1'' \<and>
   (\<exists>s. Decode (addChecksumAndCRLF ''GPGGA,1'') = Inr s \<and> checksumValid s \<and>
        checksum s = ComputeChecksum ''GPGGA,1'')"
proof -
  have v: "validBody ''GPGGA,1''"
    by (simp add: validBody_def)
  show ?thesis
    using v Decode_addChecksumAndCRLF_valid [OF v] by simp
qed


section \<open>Properties of ParseNMEATime\<close>

text \<open>
  After the seconds nothing is left of the string \<open>ParseNMEATime\<close> builds, so the
  fractional-second case of \<^verbatim>\<open>time.Parse\<close> is never met.
\<close>

lemma skip_space: "skip (CHR '' '' # v) '' '' = Some (cutspace v)"
  by (simp add: cutspace_def)

lemma isDigit_Cons:
  "isDigit (c # d # cs) 0 = isDigit [c] 0"
  "isDigit (c # d # cs) 1 = isDigit [d] 0"
  "isDigit (c # d # cs) (Suc 0) = isDigit [d] 0"
  "isDigit [c] 1 = False"
  "isDigit [] i = False"
  by (simp_all add: isDigit_def)

lemma not_digit: "\<not> isDigit '':'' 0" "\<not> isDigit '' '' 0"
  by (simp_all add: isDigit_def)

lemma getnum_Cons:
  "getnum (a # b # r) fixed =
     (if \<not> isDigit [a] 0 then None
      else if \<not> isDigit [b] 0 then (if fixed then None else Some (digitVal a, b # r))
      else Some (digitVal a * 10 + digitVal b, r))"
  by (simp add: getnum_def isDigit_Cons)

lemma parseChunks_no_text_left:
  assumes "parseChunks ([CHR ''2'', CHR ''0'', y1, y2, CHR ''-'', m1, m2, CHR ''-'', d1, d2,
                         CHR '' '', h1, h2, CHR '':'', n1, n2, CHR '':'', s1, s2]) = Some (t, rest)"
  shows "rest = []"
  using assms
  by (auto simp: parseChunks_def require_def skip_space getnum_Cons cutspace_def not_digit
        isDigit_Cons
      split: if_splits bind_splits)

lemma ParseNMEATime_no_text_left:
  assumes "6 \<le> length timeStr" and "length dateStr = 6"
    and "parseChunks (''20'' @ slice dateStr 4 6 @ ''-'' @ slice dateStr 2 4 @ ''-'' @
           slice dateStr 0 2 @ '' '' @ slice timeStr 0 2 @ '':'' @ slice timeStr 2 4 @ '':'' @
           slice timeStr 4 6) = Some (t, rest)"
  shows "rest = []"
proof -
  obtain d1 d2 m1 m2 y1 y2 where d: "dateStr = [d1, d2, m1, m2, y1, y2]"
    using assms(2) by (auto simp: length_Suc_conv eval_nat_numeral)
  obtain h1 h2 n1 n2 s1 s2 more where t: "timeStr = h1 # h2 # n1 # n2 # s1 # s2 # more"
    using assms(1) by (auto simp: Suc_le_length_iff eval_nat_numeral)
  show ?thesis
    using assms(3) parseChunks_no_text_left [of y1 y2 m1 m2 d1 d2 h1 h2 n1 n2 s1 s2 t rest]
    by (simp add: d t slice_def)
qed

lemma slice_take:
  "j \<le> n \<Longrightarrow> slice (take n s) i j = slice s i j"
  by (simp add: slice_def drop_take min_def)

lemma ParseNMEATime_take6:
  "ParseNMEATime timeStr dateStr = ParseNMEATime (take 6 timeStr) dateStr"
proof (cases "length timeStr < 6")
  case True
  then show ?thesis by simp
next
  case False
  then show ?thesis
    by (simp add: ParseNMEATime_def slice_take)
qed

text \<open>
  Claim C4. \<open>ParseNMEATime "123456" "010124"\<close> is 2024-01-01T12:34:56Z. Whenever the time
  field is shorter than 6 bytes or the date field is not exactly 6 bytes, the result is
  \<open>ErrInvalidNMEAData\<close>, as for \<open>("12345", "010124")\<close> and \<open>("123456", "99999")\<close>. Bytes
  of the time field after the sixth are ignored.
\<close>

theorem ParseNMEATime_fields:
  "ParseNMEATime ''123456'' ''010124'' =
     Inr \<lparr>Year = 2024, Month = 1, Day = 1, Hour = 12, Minute = 34, Second = 56\<rparr> \<and>
   (length timeStr < 6 \<or> length dateStr \<noteq> 6 \<longrightarrow>
      ParseNMEATime timeStr dateStr = Inl ErrInvalidNMEAData) \<and>
   ParseNMEATime ''12345'' ''010124'' = Inl ErrInvalidNMEAData \<and>
   ParseNMEATime ''123456'' ''99999'' = Inl ErrInvalidNMEAData \<and>
   ParseNMEATime timeStr dateStr = ParseNMEATime (take 6 timeStr) dateStr"
proof -
  have a: "ParseNMEATime ''123456'' ''010124'' =
     Inr \<lparr>Year = 2024, Month = 1, Day = 1, Hour = 12, Minute = 34, Second = 56\<rparr>"
    by code_simp
  have b: "length timeStr < 6 \<or> length dateStr \<noteq> 6 \<longrightarrow>
      ParseNMEATime timeStr dateStr = Inl ErrInvalidNMEAData"
    by (simp add: ParseNMEATime_def)
  have c: "ParseNMEATime ''12345'' ''010124'' = Inl ErrInvalidNMEAData"
    by (simp add: ParseNMEATime_def)
  have d: "ParseNMEATime ''123456'' ''99999'' = Inl ErrInvalidNMEAData"
    by (simp add: ParseNMEATime_def)
  show ?thesis
    using a b c d ParseNMEATime_take6 [of timeStr dateStr] by blast
qed

theorem ParseNMEATime_fields_witness:
  "length ''1234'' < 6 \<and> ParseNMEATime ''1234'' ''010124'' = Inl ErrInvalidNMEAData \<and>
   length ''0101024'' \<noteq> 6 \<and> ParseNMEATime ''123456'' ''0101024'' = Inl ErrInvalidNMEAData \<and>
   ParseNMEATime ''123456.00'' ''010124'' = ParseNMEATime ''123456'' ''010124'' \<and>
   ParseNMEATime ''123456.00'' ''010124'' =
     Inr \<lparr>Year = 2024, Month = 1, Day = 1, Hour = 12, Minute = 34, Second = 56\<rparr>"
  using ParseNMEATime_fields [of "''1234''" "''010124''"]
        ParseNMEATime_fields [of "''123456''" "''0101024''"]
        ParseNMEATime_fields [of "''123456.00''" "''010124''"]
  by simp

section \<open>The sample sentence\<close>

lemma sample_fields:
  "Split ''$GPRMC,123519,A,4807.038,N,01131.000,E,022.4,084.4,230394,003.1,W*6A'' (CHR '','') =
   [''$GPRMC'', ''123519'', ''A'', ''4807.038'', ''N'', ''01131.000'', ''E'', ''022.4'',
    ''084.4'', ''230394'', ''003.1'', ''W*6A'']"
  by code_simp

lemma sample_time:
  "ParseNMEATime ''123519'' ''230394'' =
     Inr \<lparr>Year = 2094, Month = 3, Day = 23, Hour = 12, Minute = 35, Second = 19\<rparr>"
  by code_simp

lemma sample_prefix:
  "HasPrefix ''$GPRMC,123519,A,4807.038,N,01131.000,E,022.4,084.4,230394,003.1,W*6A'' ''$GPRMC''"
  by (simp add: HasPrefix_def)

text \<open>
  Claim C1 as written fails: the time and date fields of the sample sentence do not parse
  to 1994-03-23T12:35:19Z.
\<close>

theorem sample_sentence_not_1994:
  "ParseNMEATime
     (Split ''$GPRMC,123519,A,4807.038,N,01131.000,E,022.4,084.4,230394,003.1,W*6A'' (CHR '','') ! 1)
     (Split ''$GPRMC,123519,A,4807.038,N,01131.000,E,022.4,084.4,230394,003.1,W*6A'' (CHR '','') ! 9)
   \<noteq> Inr \<lparr>Year = 1994, Month = 3, Day = 23, Hour = 12, Minute = 35, Second = 19\<rparr>"
  by (simp add: sample_fields sample_time)

text \<open>
  Claim C1, as the code has it. The sample sentence has the time field \<open>123519\<close> and the
  date field \<open>230394\<close>; the year is \<open>20\<close> followed by the two digits of the date, so the
  timestamp is 2094-03-23T12:35:19Z, and that is the time \<open>SyncTime\<close>'s handler passes to
  \<open>SetSystemTime\<close>.
\<close>

theorem sample_sentence_2094:
  "index (Split ''$GPRMC,123519,A,4807.038,N,01131.000,E,022.4,084.4,230394,003.1,W*6A'' (CHR '','')) 1
     = Some ''123519'' \<and>
   index (Split ''$GPRMC,123519,A,4807.038,N,01131.000,E,022.4,084.4,230394,003.1,W*6A'' (CHR '','')) 9
     = Some ''230394'' \<and>
   ParseNMEATime ''123519'' ''230394'' =
     Inr \<lparr>Year = 2094, Month = 3, Day = 23, Hour = 12, Minute = 35, Second = 19\<rparr> \<and>
   hd (fst (syncLine env g
        ''$GPRMC,123519,A,4807.038,N,01131.000,E,022.4,084.4,230394,003.1,W*6A'')) =
     CallSetSystemTime \<lparr>Year = 2094, Month = 3, Day = 23, Hour = 12, Minute = 35, Second = 19\<rparr>"
  by (simp add: syncLine_def sample_prefix sample_fields sample_time index_def
           split: prod.splits option.splits)

theorem sample_sentence_2094_witness:
  "hd (fst (syncLine (hostEnv ''linux'' None []) \<lparr>DevicePath = ''/dev/ttyUSB0'', BaudRate = 9600, Debug = False\<rparr>
        ''$GPRMC,123519,A,4807.038,N,01131.000,E,022.4,084.4,230394,003.1,W*6A'')) =
     CallSetSystemTime \<lparr>Year = 2094, Month = 3, Day = 23, Hour = 12, Minute = 35, Second = 19\<rparr>"
  using sample_sentence_2094 [of "hostEnv ''linux'' None []" "\<lparr>DevicePath = ''/dev/ttyUSB0'', BaudRate = 9600, Debug = False\<rparr>"]
  by simp

section \<open>Properties of IsGPSDevice\<close>

lemma probeLoop_quiet:
  "list_all quietRead pre \<Longrightarrow>
   probeLoop (pre @ evs) = (replicate (length pre) Scan @ fst (probeLoop evs), snd (probeLoop evs))"
proof (induction pre)
  case Nil
  show ?case by simp
next
  case (Cons ev pre)
  then show ?case
    by (cases ev) (auto simp: quietRead_def probeLine_def split: option.splits)
qed

lemma probeLoop_timeout:
  "list_all quietRead pre \<Longrightarrow>
   snd (probeLoop (pre @ TimeoutFired # rest)) = Returned (False, Some ErrNoValidData)"
  by (simp add: probeLoop_quiet)

lemma probeLoop_read_error:
  assumes "list_all quietRead pre"
    and "case tok of None \<Rightarrow> True | Some line \<Rightarrow> \<not> talkerPrefix line"
  shows "snd (probeLoop (pre @ Default tok (Some e) # rest)) =
         Returned (False, Some (ErrReadingDevice e))"
  using assms by (cases tok) (simp_all add: probeLoop_quiet probeLine_def)

lemma IsGPSDevice_reaches_loop:
  assumes "if GOOS env = ''windows'' then HasPrefix device ''COM'' else HasPrefix device ''/dev/''"
    and "openErr env device = None"
    and "snd (ConfigureSerialPort env device (BaudRate g)) = None"
  shows "snd (IsGPSDevice env g device) = snd (probeLoop (selects env))"
  using assms
  by (cases "ConfigureSerialPort env device (BaudRate g)")
     (auto simp: IsGPSDevice_def split: prod.splits if_splits)

text \<open>
  Claim C2, as the code has it. When the device path is accepted, the device opens and
  the port is configured, and every iteration before the timeout scans no line or a line
  without a talker prefix, the probe returns false together with the error
  \<open>ErrNoValidData\<close> once the timeout case is taken. A read failure returns false with a
  different error, \<open>ErrReadingDevice\<close>, so the two are told apart by the error value.
\<close>

theorem IsGPSDevice_timeout_ErrNoValidData:
  assumes "if GOOS env = ''windows'' then HasPrefix device ''COM'' else HasPrefix device ''/dev/''"
    and "openErr env device = None"
    and "snd (ConfigureSerialPort env device (BaudRate g)) = None"
    and "list_all quietRead pre"
  shows "(selects env = pre @ TimeoutFired # rest \<longrightarrow>
            snd (IsGPSDevice env g device) = Returned (False, Some ErrNoValidData)) \<and>
         (selects env = pre @ Default tok (Some e) # rest \<and>
          (case tok of None \<Rightarrow> True | Some line \<Rightarrow> \<not> talkerPrefix line) \<longrightarrow>
            snd (IsGPSDevice env g device) = Returned (False, Some (ErrReadingDevice e))) \<and>
         ErrNoValidData \<noteq> ErrReadingDevice e"
  using IsGPSDevice_reaches_loop [OF assms(1-3)] probeLoop_timeout [OF assms(4)]
        probeLoop_read_error [OF assms(4)]
  by simp

theorem IsGPSDevice_timeout_ErrNoValidData_witness:
  "list_all quietRead [Default None None, Default (Some ''garbage'') None] \<and>
   snd (IsGPSDevice
          (hostEnv ''linux'' None [Default None None, Default (Some ''garbage'') None, TimeoutFired])
          \<lparr>DevicePath = ''/dev/ttyUSB0'', BaudRate = 9600, Debug = False\<rparr> ''/dev/ttyUSB0'')
     = Returned (False, Some ErrNoValidData) \<and>
   snd (IsGPSDevice
          (hostEnv ''windows'' None
             [Default None None, Default (Some ''garbage'') None, Default None (Some ''EIO'')])
          \<lparr>DevicePath = ''COM3'', BaudRate = 9600, Debug = False\<rparr> ''COM3'')
     = Returned (False, Some (ErrReadingDevice ''EIO''))"
proof -
  have q: "list_all quietRead [Default None None, Default (Some ''garbage'') None]"
    by (simp add: quietRead_def talkerPrefix_def HasPrefix_def)
  have a: "snd (IsGPSDevice
          (hostEnv ''linux'' None [Default None None, Default (Some ''garbage'') None, TimeoutFired])
          \<lparr>DevicePath = ''/dev/ttyUSB0'', BaudRate = 9600, Debug = False\<rparr> ''/dev/ttyUSB0'')
     = Returned (False, Some ErrNoValidData)"
    using IsGPSDevice_timeout_ErrNoValidData
      [of "hostEnv ''linux'' None [Default None None, Default (Some ''garbage'') None, TimeoutFired]"
          "''/dev/ttyUSB0''" "\<lparr>DevicePath = ''/dev/ttyUSB0'', BaudRate = 9600, Debug = False\<rparr>"
          "[Default None None, Default (Some ''garbage'') None]" "[]", OF _ _ _ q]
    by (simp add: hostEnv_def HasPrefix_def ConfigureSerialPort_def isUnixLike_def)
  have b: "snd (IsGPSDevice
          (hostEnv ''windows'' None
             [Default None None, Default (Some ''garbage'') None, Default None (Some ''EIO'')])
          \<lparr>DevicePath = ''COM3'', BaudRate = 9600, Debug = False\<rparr> ''COM3'')
     = Returned (False, Some (ErrReadingDevice ''EIO''))"
    using IsGPSDevice_timeout_ErrNoValidData
      [of "hostEnv ''windows'' None
             [Default None None, Default (Some ''garbage'') None, Default None (Some ''EIO'')]"
          "''COM3''" "\<lparr>DevicePath = ''COM3'', BaudRate = 9600, Debug = False\<rparr>"
          "[Default None None, Default (Some ''garbage'') None]" "[]" None "''EIO''", OF _ _ _ q]
    by (simp add: hostEnv_def HasPrefix_def ConfigureSerialPort_def isUnixLike_def)
  show ?thesis
    using q a b by simp
qed

text \<open>
  Claim C2 as written fails: on a stream without lines the probe's timeout gives false
  with an error, not false with nil.
\<close>

theorem IsGPSDevice_timeout_not_nil:
  "snd (IsGPSDevice (hostEnv ''linux'' None [Default None None, TimeoutFired])
          \<lparr>DevicePath = ''/dev/ttyUSB0'', BaudRate = 9600, Debug = False\<rparr> ''/dev/ttyUSB0'')
   \<noteq> Returned (False, None)"
  by (simp add: IsGPSDevice_def hostEnv_def HasPrefix_def ConfigureSerialPort_def
        isUnixLike_def)

text \<open>
  Claim C10. A device path that does not start with \<open>COM\<close> on Windows, or with \<open>/dev/\<close>
  on any other system, makes \<open>IsGPSDevice\<close> return false with an error, and nothing has
  been opened, configured or read.
\<close>

theorem IsGPSDevice_invalid_path:
  assumes "if GOOS env = ''windows'' then \<not> HasPrefix device ''COM''
           else \<not> HasPrefix device ''/dev/''"
  shows "IsGPSDevice env g device = ([], Returned (False, Some (ErrInvalidDevicePath device))) \<and>
         \<not> opensOrConfigures (fst (IsGPSDevice env g device))"
  using assms by (simp add: IsGPSDevice_def opensOrConfigures_def split: if_splits)

theorem IsGPSDevice_invalid_path_witness:
  "\<not> HasPrefix ''ttyUSB0'' ''/dev/'' \<and>
   IsGPSDevice (hostEnv ''linux'' None [Default (Some ''$GPGGA,1'') None])
     \<lparr>DevicePath = ''ttyUSB0'', BaudRate = 9600, Debug = False\<rparr> ''ttyUSB0''
     = ([], Returned (False, Some (ErrInvalidDevicePath ''ttyUSB0''))) \<and>
   \<not> HasPrefix ''/dev/ttyUSB0'' ''COM'' \<and>
   IsGPSDevice (hostEnv ''windows'' None [Default (Some ''$GPGGA,1'') None])
     \<lparr>DevicePath = ''/dev/ttyUSB0'', BaudRate = 9600, Debug = False\<rparr> ''/dev/ttyUSB0''
     = ([], Returned (False, Some (ErrInvalidDevicePath ''/dev/ttyUSB0'')))"
  using IsGPSDevice_invalid_path
          [of "hostEnv ''linux'' None [Default (Some ''$GPGGA,1'') None]" "''ttyUSB0''"
              "\<lparr>DevicePath = ''ttyUSB0'', BaudRate = 9600, Debug = False\<rparr>"]
        IsGPSDevice_invalid_path
          [of "hostEnv ''windows'' None [Default (Some ''$GPGGA,1'') None]" "''/dev/ttyUSB0''"
              "\<lparr>DevicePath = ''/dev/ttyUSB0'', BaudRate = 9600, Debug = False\<rparr>"]
  by (simp add: hostEnv_def HasPrefix_def)

section \<open>Properties of SyncTime\<close>

lemma SetSystemTime_trace:
  "clockSets (fst (SetSystemTime env t)) = 0 \<and> scans (fst (SetSystemTime env t)) = 0"
  by (simp add: SetSystemTime_def clockSets_def scans_def Let_def split: option.splits)

lemma clockSets_simps:
  "clockSets [] = 0"
  "clockSets (CallSetSystemTime t # es) = Suc (clockSets es)"
  "clockSets (Scan # es) = clockSets es"
  "clockSets (Log m # es) = clockSets es"
  "clockSets (es @ es') = clockSets es + clockSets es'"
  by (simp_all add: clockSets_def)

lemma scans_simps:
  "scans [] = 0"
  "scans (CallSetSystemTime t # es) = scans es"
  "scans (Scan # es) = Suc (scans es)"
  "scans (Log m # es) = scans es"
  "scans (es @ es') = scans es + scans es'"
  by (simp_all add: scans_def)

lemma syncLine_short:
  "HasPrefix line ''$GPRMC'' \<Longrightarrow> length (Split line (CHR '','')) < 10 \<Longrightarrow>
   syncLine env g line = ([], Continue)"
  by (simp add: syncLine_def)

lemma syncLine_not_A:
  assumes "HasPrefix line ''$GPRMC''"
    and "index (Split line (CHR '','')) 2 = Some status" and "status \<noteq> ''A''"
  shows "syncLine env g line = ([], Continue)"
  using assms by (simp add: syncLine_def Let_def)

lemma syncLine_parse_error:
  assumes "HasPrefix line ''$GPRMC''"
    and "10 \<le> length (Split line (CHR '','')) "
    and "Split line (CHR '','') ! 2 = ''A''"
    and "ParseNMEATime (Split line (CHR '','') ! 1) (Split line (CHR '','') ! 9) = Inl e"
  shows "syncLine env g line = ((if Debug g then [Log (LogParseWarning e)] else []), Continue)"
  using assms by (simp add: syncLine_def Let_def index_def)

lemma syncLine_actionable:
  assumes "HasPrefix line ''$GPRMC''"
    and "10 \<le> length (Split line (CHR '','')) "
    and "Split line (CHR '','') ! 2 = ''A''"
    and "ParseNMEATime (Split line (CHR '','') ! 1) (Split line (CHR '','') ! 9) = Inr t"
  shows "syncLine env g line =
           (CallSetSystemTime t # fst (SetSystemTime env t) @
              (if snd (SetSystemTime env t) = None then [Log (LogSynchronized t)] else []),
            Return (snd (SetSystemTime env t)))"
proof (cases "SetSystemTime env t")
  case (Pair cs r)
  then show ?thesis
    using assms by (cases r) (simp_all add: syncLine_def Let_def index_def)
qed

lemma syncLine_other:
  "\<not> HasPrefix line ''$GPRMC'' \<Longrightarrow> syncLine env g line = ([], FallThrough)"
  by (simp add: syncLine_def)

lemma syncLine_no_panic: "snd (syncLine env g line) \<noteq> Panic"
  by (simp add: syncLine_def Let_def index_def split: sum.splits prod.splits option.splits)

lemma syncLoop_no_panic: "snd (syncLoop env g evs) \<noteq> Panicked"
proof (induction evs)
  case Nil
  show ?case by simp
next
  case (Cons ev evs)
  show ?case
  proof (cases ev)
    case (Default tok err)
    show ?thesis
    proof (cases tok)
      case None
      then show ?thesis
        using Default Cons.IH by (cases err) simp_all
    next
      case (Some line)
      obtain es st where l: "syncLine env g line = (es, st)"
        by (cases "syncLine env g line")
      then have "st \<noteq> Panic"
        using syncLine_no_panic [of env g line] by simp
      then show ?thesis
        using Default Some l Cons.IH by (cases st; cases err) simp_all
    qed
  qed simp_all
qed

text \<open>
  Once the device is open and the port configured, \<open>SyncTime\<close> returns what its read loop
  returns, and the only calls of \<open>SetSystemTime\<close> are the loop's.
\<close>

lemma ConfigureSerialPort_trace:
  "clockSets (fst (ConfigureSerialPort env device baud)) = 0"
  by (simp add: ConfigureSerialPort_def clockSets_def Let_def split: option.splits)

lemma SyncTime_reaches_loop:
  assumes "openErr env (DevicePath g) = None"
    and "snd (ConfigureSerialPort env (DevicePath g) (BaudRate g)) = None"
  shows "snd (SyncTime env g) = snd (syncLoop env g (selects env)) \<and>
         clockSets (fst (SyncTime env g)) = clockSets (fst (syncLoop env g (selects env)))"
proof -
  obtain cs where c: "ConfigureSerialPort env (DevicePath g) (BaudRate g) = (cs, None)"
    using assms(2) by (cases "ConfigureSerialPort env (DevicePath g) (BaudRate g)") simp
  have z: "clockSets cs = 0"
    using ConfigureSerialPort_trace [of env "DevicePath g" "BaudRate g"] by (simp add: c)
  obtain es r where l: "syncLoop env g (selects env) = (es, r)"
    by (cases "syncLoop env g (selects env)")
  have d: "clockSets (deferred (CloseFile (DevicePath g)) r) = 0"
    by (cases r) (simp_all add: deferred_def clockSets_def)
  have o: "clockSets (OpenFile p # xs) = clockSets xs" for p xs
    by (simp add: clockSets_def)
  show ?thesis
    by (simp add: SyncTime_def assms(1) c l o clockSets_simps(5) z d)
qed

text \<open>Sample lines: a void fix, and a valid fix with a time field that is too short.\<close>

lemma void_fields:
  "Split ''$GPRMC,123519,V,4807.038,N,01131.000,E,022.4,084.4,230394,003.1,W*7D'' (CHR '','') =
   [''$GPRMC'', ''123519'', ''V'', ''4807.038'', ''N'', ''01131.000'', ''E'', ''022.4'',
    ''084.4'', ''230394'', ''003.1'', ''W*7D'']"
  by code_simp

lemma void_prefix:
  "HasPrefix ''$GPRMC,123519,V,4807.038,N,01131.000,E,022.4,084.4,230394,003.1,W*7D'' ''$GPRMC''"
  by (simp add: HasPrefix_def)

lemma short_time_fields:
  "Split ''$GPRMC,1235,A,4807.038,N,01131.000,E,022.4,084.4,230394,003.1,W*6A'' (CHR '','') =
   [''$GPRMC'', ''1235'', ''A'', ''4807.038'', ''N'', ''01131.000'', ''E'', ''022.4'',
    ''084.4'', ''230394'', ''003.1'', ''W*6A'']"
  by code_simp

lemma short_time_prefix:
  "HasPrefix ''$GPRMC,1235,A,4807.038,N,01131.000,E,022.4,084.4,230394,003.1,W*6A'' ''$GPRMC''"
  by (simp add: HasPrefix_def)

text \<open>
  Claim C3, as the code has it. A \<open>$GPRMC\<close> line whose status field is \<open>V\<close> makes no call
  of \<open>SetSystemTime\<close>: the loop scans it and goes on. A \<open>$GPRMC\<close> line of at least 10
  fields with status \<open>A\<close> and a time and date that parse makes exactly one call of
  \<open>SetSystemTime\<close>, after which \<open>SyncTime\<close>'s loop returns what that call returned (nil
  when the clock was set, its error otherwise) and scans nothing further: whatever follows
  the line in the run is not read. The loop keeps no state from one iteration to the next,
  so what holds for the line at the head of a run holds at any iteration that reads it.
\<close>

theorem syncLoop_status_gate:
  assumes "HasPrefix line ''$GPRMC''"
  shows "(index (Split line (CHR '','')) 2 = Some ''V'' \<longrightarrow>
            syncLine env g line = ([], Continue) \<and>
            syncLoop env g (Default (Some line) err # rest) =
              (Scan # fst (syncLoop env g rest), snd (syncLoop env g rest))) \<and>
         (10 \<le> length (Split line (CHR '','')) \<and> Split line (CHR '','') ! 2 = ''A'' \<and>
          ParseNMEATime (Split line (CHR '','') ! 1) (Split line (CHR '','') ! 9) = Inr t \<longrightarrow>
            clockSets (fst (syncLoop env g (Default (Some line) err # rest))) = 1 \<and>
            scans (fst (syncLoop env g (Default (Some line) err # rest))) = 1 \<and>
            syncLoop env g (Default (Some line) err # rest) =
              syncLoop env g [Default (Some line) err] \<and>
            snd (syncLoop env g (Default (Some line) err # rest)) =
              Returned (snd (SetSystemTime env t)))"
proof (intro conjI impI)
  assume v: "index (Split line (CHR '','')) 2 = Some ''V''"
  show c: "syncLine env g line = ([], Continue)"
    using syncLine_not_A [OF assms v] by simp
  show "syncLoop env g (Default (Some line) err # rest) =
          (Scan # fst (syncLoop env g rest), snd (syncLoop env g rest))"
    by (simp add: c)
next
  assume a: "10 \<le> length (Split line (CHR '','')) \<and> Split line (CHR '','') ! 2 = ''A'' \<and>
          ParseNMEATime (Split line (CHR '','') ! 1) (Split line (CHR '','') ! 9) = Inr t"
  have l: "syncLine env g line =
           (CallSetSystemTime t # fst (SetSystemTime env t) @
              (if snd (SetSystemTime env t) = None then [Log (LogSynchronized t)] else []),
            Return (snd (SetSystemTime env t)))"
    using syncLine_actionable [OF assms, of t env g] a by simp
  show "clockSets (fst (syncLoop env g (Default (Some line) err # rest))) = 1"
    using SetSystemTime_trace [of env t] by (simp add: l clockSets_simps)
  show "scans (fst (syncLoop env g (Default (Some line) err # rest))) = 1"
    using SetSystemTime_trace [of env t] by (simp add: l scans_simps)
  show "syncLoop env g (Default (Some line) err # rest) = syncLoop env g [Default (Some line) err]"
    by (simp add: l)
  show "snd (syncLoop env g (Default (Some line) err # rest)) =
          Returned (snd (SetSystemTime env t))"
    by (simp add: l)
qed

theorem syncLoop_status_gate_witness:
  "syncLine (hostEnv ''linux'' None [])
       \<lparr>DevicePath = ''/dev/ttyUSB0'', BaudRate = 9600, Debug = False\<rparr>
       ''$GPRMC,123519,V,4807.038,N,01131.000,E,022.4,084.4,230394,003.1,W*7D''
     = ([], Continue) \<and>
   clockSets (fst (syncLoop (hostEnv ''linux'' None [])
       \<lparr>DevicePath = ''/dev/ttyUSB0'', BaudRate = 9600, Debug = False\<rparr>
       [Default (Some ''$GPRMC,123519,A,4807.038,N,01131.000,E,022.4,084.4,230394,003.1,W*6A'') None,
        Default (Some ''$GPGGA,1'') None])) = 1 \<and>
   snd (syncLoop (hostEnv ''linux'' None [])
       \<lparr>DevicePath = ''/dev/ttyUSB0'', BaudRate = 9600, Debug = False\<rparr>
       [Default (Some ''$GPRMC,123519,A,4807.038,N,01131.000,E,022.4,084.4,230394,003.1,W*6A'') None,
        Default (Some ''$GPGGA,1'') None]) = Returned None"
proof -
  let ?env = "hostEnv ''linux'' None []"
  let ?g = "\<lparr>DevicePath = ''/dev/ttyUSB0'', BaudRate = 9600, Debug = False\<rparr>"
  let ?t = "\<lparr>Year = 2094, Month = 3, Day = 23, Hour = 12, Minute = 35, Second = 19\<rparr>"
  have ok: "snd (SetSystemTime ?env ?t) = None"
    by (simp add: SetSystemTime_def hostEnv_def isUnixLike_def)
  have v: "syncLine ?env ?g
       ''$GPRMC,123519,V,4807.038,N,01131.000,E,022.4,084.4,230394,003.1,W*7D'' = ([], Continue)"
    using syncLoop_status_gate [OF void_prefix, where env = ?env and g = ?g and rest = "[]"]
    by (simp add: void_fields index_def del: syncLoop.simps)
  have a: "clockSets (fst (syncLoop ?env ?g
       [Default (Some ''$GPRMC,123519,A,4807.038,N,01131.000,E,022.4,084.4,230394,003.1,W*6A'') None,
        Default (Some ''$GPGGA,1'') None])) = 1 \<and>
     snd (syncLoop ?env ?g
       [Default (Some ''$GPRMC,123519,A,4807.038,N,01131.000,E,022.4,084.4,230394,003.1,W*6A'') None,
        Default (Some ''$GPGGA,1'') None]) = Returned (snd (SetSystemTime ?env ?t))"
  proof -
    have h: "10 \<le> length (Split ''$GPRMC,123519,A,4807.038,N,01131.000,E,022.4,084.4,230394,003.1,W*6A'' (CHR '','')) \<and>
        Split ''$GPRMC,123519,A,4807.038,N,01131.000,E,022.4,084.4,230394,003.1,W*6A'' (CHR '','') ! 2 = ''A'' \<and>
        ParseNMEATime
          (Split ''$GPRMC,123519,A,4807.038,N,01131.000,E,022.4,084.4,230394,003.1,W*6A'' (CHR '','') ! 1)
          (Split ''$GPRMC,123519,A,4807.038,N,01131.000,E,022.4,084.4,230394,003.1,W*6A'' (CHR '','') ! 9)
        = Inr ?t"
      by (simp add: sample_fields sample_time)
    show ?thesis
      using h syncLoop_status_gate [OF sample_prefix, where t = ?t and env = ?env and g = ?g
              and err = None and rest = "[Default (Some ''$GPGGA,1'') None]"]
      by blast
  qed
  show ?thesis
    using v a ok by simp
qed

text \<open>
  Claim C3 as written fails where the clock cannot be set: \<open>SetSystemTime\<close> is called once
  and \<open>SyncTime\<close> returns its error, not nil.
\<close>

theorem SyncTime_clock_set_fails:
  "clockSets (fst (SyncTime
      (hostEnv ''windows'' (Some ''exit status 1'')
         [Default (Some ''$GPRMC,123519,A,4807.038,N,01131.000,E,022.4,084.4,230394,003.1,W*6A'') None])
      \<lparr>DevicePath = ''COM3'', BaudRate = 9600, Debug = False\<rparr>)) = 1 \<and>
   snd (SyncTime
      (hostEnv ''windows'' (Some ''exit status 1'')
         [Default (Some ''$GPRMC,123519,A,4807.038,N,01131.000,E,022.4,084.4,230394,003.1,W*6A'') None])
      \<lparr>DevicePath = ''COM3'', BaudRate = 9600, Debug = False\<rparr>) \<noteq> Returned None"
  by (simp add: SyncTime_def hostEnv_def ConfigureSerialPort_def syncLine_def sample_prefix
        sample_fields sample_time index_def SetSystemTime_def clockSets_def deferred_def)

text \<open>
  Claim C5. A \<open>$GPRMC\<close> line of at least 10 fields with status \<open>A\<close> whose time and date
  fail to parse is skipped: the only trace it leaves besides the scan is a log line, and
  that only in debug mode. The loop goes on with the next iteration, so the line neither
  makes \<open>SyncTime\<close> return nor changes what the rest of the run does.
\<close>

theorem syncLoop_parse_failure_skipped:
  assumes "HasPrefix line ''$GPRMC''"
    and "10 \<le> length (Split line (CHR '','')) "
    and "Split line (CHR '','') ! 2 = ''A''"
    and "ParseNMEATime (Split line (CHR '','') ! 1) (Split line (CHR '','') ! 9) = Inl e"
  shows "syncLine env g line = ((if Debug g then [Log (LogParseWarning e)] else []), Continue) \<and>
         syncLoop env g (Default (Some line) err # rest) =
           (Scan # (if Debug g then [Log (LogParseWarning e)] else []) @ fst (syncLoop env g rest),
            snd (syncLoop env g rest)) \<and>
         clockSets (fst (syncLoop env g (Default (Some line) err # rest))) =
           clockSets (fst (syncLoop env g rest))"
  using syncLine_parse_error [OF assms]
  by (simp add: clockSets_simps)

theorem syncLoop_parse_failure_skipped_witness:
  "ParseNMEATime ''1235'' ''230394'' = Inl ErrInvalidNMEAData \<and>
   syncLoop (hostEnv ''linux'' None [])
       \<lparr>DevicePath = ''/dev/ttyUSB0'', BaudRate = 9600, Debug = True\<rparr>
       [Default (Some ''$GPRMC,1235,A,4807.038,N,01131.000,E,022.4,084.4,230394,003.1,W*6A'') None,
        TimeoutFired]
     = ([Scan, Log (LogParseWarning ErrInvalidNMEAData)], Returned (Some ErrNoValidData)) \<and>
   syncLoop (hostEnv ''linux'' None [])
       \<lparr>DevicePath = ''/dev/ttyUSB0'', BaudRate = 9600, Debug = False\<rparr>
       [Default (Some ''$GPRMC,1235,A,4807.038,N,01131.000,E,022.4,084.4,230394,003.1,W*6A'') None,
        TimeoutFired]
     = ([Scan], Returned (Some ErrNoValidData))"
proof -
  have p: "ParseNMEATime ''1235'' ''230394'' = Inl ErrInvalidNMEAData"
    by (simp add: ParseNMEATime_def)
  have p': "ParseNMEATime
      (Split ''$GPRMC,1235,A,4807.038,N,01131.000,E,022.4,084.4,230394,003.1,W*6A'' (CHR '','') ! 1)
      (Split ''$GPRMC,1235,A,4807.038,N,01131.000,E,022.4,084.4,230394,003.1,W*6A'' (CHR '','') ! 9)
      = Inl ErrInvalidNMEAData"
    by (simp add: short_time_fields p)
  have n: "10 \<le> length (Split ''$GPRMC,1235,A,4807.038,N,01131.000,E,022.4,084.4,230394,003.1,W*6A'' (CHR '',''))"
    by (simp add: short_time_fields)
  have a: "Split ''$GPRMC,1235,A,4807.038,N,01131.000,E,022.4,084.4,230394,003.1,W*6A'' (CHR '','') ! 2 = ''A''"
    by (simp add: short_time_fields)
  show ?thesis
    using p
      syncLoop_parse_failure_skipped [OF short_time_prefix n a p',
        of "hostEnv ''linux'' None []"
           "\<lparr>DevicePath = ''/dev/ttyUSB0'', BaudRate = 9600, Debug = True\<rparr>" None "[TimeoutFired]"]
      syncLoop_parse_failure_skipped [OF short_time_prefix n a p',
        of "hostEnv ''linux'' None []"
           "\<lparr>DevicePath = ''/dev/ttyUSB0'', BaudRate = 9600, Debug = False\<rparr>" None "[TimeoutFired]"]
    by simp
qed

text \<open>
  Claim C8. A line that does not begin with \<open>$GPRMC\<close>, an RMC sentence of the talkers
  GN, GL and GA included, leaves no trace in \<open>SyncTime\<close>'s handler: \<open>SetSystemTime\<close> is not
  called for it.
\<close>

theorem syncLine_other_prefix:
  assumes "\<not> HasPrefix line ''$GPRMC''"
  shows "syncLine env g line = ([], FallThrough) \<and> clockSets (fst (syncLine env g line)) = 0"
  using syncLine_other [OF assms] by (simp add: clockSets_simps)

theorem syncLine_other_prefix_witness:
  "\<not> HasPrefix ''$GNRMC,123519,A,4807.038,N,01131.000,E,022.4,084.4,230394,003.1,W*74'' ''$GPRMC'' \<and>
   syncLine (hostEnv ''linux'' None [])
       \<lparr>DevicePath = ''/dev/ttyUSB0'', BaudRate = 9600, Debug = True\<rparr>
       ''$GNRMC,123519,A,4807.038,N,01131.000,E,022.4,084.4,230394,003.1,W*74''
     = ([], FallThrough)"
proof -
  have n: "\<not> HasPrefix ''$GNRMC,123519,A,4807.038,N,01131.000,E,022.4,084.4,230394,003.1,W*74'' ''$GPRMC''"
    by (simp add: HasPrefix_def)
  show ?thesis
    using n syncLine_other_prefix [OF n, of "hostEnv ''linux'' None []"
        "\<lparr>DevicePath = ''/dev/ttyUSB0'', BaudRate = 9600, Debug = True\<rparr>"]
    by simp
qed

text \<open>
  Claim C9. A line that begins with \<open>$GPRMC\<close> and splits on commas into fewer than 10
  fields is skipped before any field is read, so reading the fields 1, 2 and 9 never goes
  out of range: neither the handler nor the loop of \<open>SyncTime\<close> panics, on any input.
\<close>

theorem syncLine_fields_in_range:
  "(HasPrefix line ''$GPRMC'' \<and> length (Split line (CHR '','')) < 10 \<longrightarrow>
      syncLine env g line = ([], Continue)) \<and>
   snd (syncLine env g line) \<noteq> Panic \<and>
   snd (syncLoop env g evs) \<noteq> Panicked"
  using syncLine_short [of line env g] syncLine_no_panic [of env g line]
        syncLoop_no_panic [of env g evs]
  by simp

theorem syncLine_fields_in_range_witness:
  "HasPrefix ''$GPRMC,123519,A'' ''$GPRMC'' \<and>
   length (Split ''$GPRMC,123519,A'' (CHR '','')) < 10 \<and>
   syncLine (hostEnv ''linux'' None [])
       \<lparr>DevicePath = ''/dev/ttyUSB0'', BaudRate = 9600, Debug = True\<rparr> ''$GPRMC,123519,A''
     = ([], Continue)"
proof -
  have p: "HasPrefix ''$GPRMC,123519,A'' ''$GPRMC''"
    by (simp add: HasPrefix_def)
  have n: "length (Split ''$GPRMC,123519,A'' (CHR '','')) < 10"
    by code_simp
  show ?thesis
    using p n syncLine_fields_in_range [of "''$GPRMC,123519,A''" "hostEnv ''linux'' None []"
        "\<lparr>DevicePath = ''/dev/ttyUSB0'', BaudRate = 9600, Debug = True\<rparr>" "[]"]
    by simp
qed

end
